theory Spec2Isabelle
  imports Complex_Main "HOL-Library.AList"
begin

section \<open>Python values\<close>

text \<open>
  The bot keeps its ledger and its persisted state in plain Python dictionaries filled by
  \<^verbatim>\<open>json.load\<close>. A JSON value is modelled by \<open>jvalue\<close>; a dictionary is an association
  list with distinct keys in insertion order, read with \<open>dict_get\<close> (Python's
  \<^verbatim>\<open>d.get(k)\<close>, which answers \<^verbatim>\<open>None\<close> for a missing key) and written with
  \<open>AList.update\<close> (Python's \<^verbatim>\<open>d[k] = v\<close>: in place when the key exists, appended
  otherwise).
\<close>

datatype jvalue =
    JNull
  | JBool bool
  | JInt int
  | JFloat real
  | JStr string
  | JList "jvalue list"
  | JDict "(string \<times> jvalue) list"

type_synonym pydict = "(string \<times> jvalue) list"

definition dict_get :: "pydict \<Rightarrow> string \<Rightarrow> jvalue" where
  "dict_get d k = (case map_of d k of None \<Rightarrow> JNull | Some v \<Rightarrow> v)"

section \<open>Double-precision arithmetic\<close>

text \<open>
  Python's \<^verbatim>\<open>float\<close> is an IEEE-754 double. A finite double is modelled by the real
  number it denotes, and every arithmetic operation by the exact operation followed by
  \<open>fl\<close>, rounding to the nearest double (53-bit significand, ties to even, gradual
  underflow below \<open>2\<^sup>-\<^sup>1\<^sup>0\<^sup>2\<^sup>2\<close>). Infinities and NaN are outside the model. A decimal
  literal of the source such as \<^verbatim>\<open>0.57\<close> denotes \<open>fl (57 / 100)\<close>.
\<close>

function float_exp_up :: "real \<Rightarrow> int" where
  "float_exp_up x = (if 2 \<le> x then float_exp_up (x / 2) + 1 else 0)"
  by pat_completeness auto
termination
proof (relation "measure (\<lambda>x. nat \<lceil>x\<rceil>)")
  show "wf (measure (\<lambda>x::real. nat \<lceil>x\<rceil>))" by simp
next
  fix x :: real
  assume x: "2 \<le> x"
  have "x / 2 \<le> of_int \<lceil>x\<rceil> - 1"
    using le_of_int_ceiling [of x] x by linarith
  then have "x / 2 \<le> of_int (\<lceil>x\<rceil> - 1)" by simp
  then have "\<lceil>x / 2\<rceil> \<le> \<lceil>x\<rceil> - 1" by (rule ceiling_le)
  moreover have "0 < \<lceil>x\<rceil>" using x by (simp add: less_ceiling_iff)
  ultimately show "(x / 2, x) \<in> measure (\<lambda>x. nat \<lceil>x\<rceil>)" by simp
qed

function float_exp_down :: "real \<Rightarrow> int" where
  "float_exp_down x = (if 0 < x \<and> x < 1 then float_exp_down (x * 2) - 1 else 0)"
  by pat_completeness auto
termination
proof (relation "measure (\<lambda>x. nat \<lceil>1 / x\<rceil>)")
  show "wf (measure (\<lambda>x::real. nat \<lceil>1 / x\<rceil>))" by simp
next
  fix x :: real
  assume x: "0 < x \<and> x < 1"
  define y where "y = 1 / x"
  have y: "1 < y" using x by (simp add: y_def)
  have c: "2 \<le> \<lceil>y\<rceil>"
    using y by (simp add: less_ceiling_iff flip: zless_iff_Suc_zadd add1_zle_eq)
  have c': "(2::real) \<le> of_int \<lceil>y\<rceil>" using c by linarith
  have "y / 2 \<le> of_int \<lceil>y\<rceil> - 1"
    using le_of_int_ceiling [of y] c' by linarith
  then have "y / 2 \<le> of_int (\<lceil>y\<rceil> - 1)" by simp
  then have "\<lceil>y / 2\<rceil> \<le> \<lceil>y\<rceil> - 1" by (rule ceiling_le)
  then have "nat \<lceil>y / 2\<rceil> < nat \<lceil>y\<rceil>" using c by linarith
  moreover have "1 / (x * 2) = y / 2" by (simp add: y_def)
  ultimately have "nat \<lceil>1 / (x * 2)\<rceil> < nat \<lceil>1 / x\<rceil>"
    by (simp only: y_def)
  then show "(x * 2, x) \<in> measure (\<lambda>x. nat \<lceil>1 / x\<rceil>)"
    by (simp only: in_measure)
qed

declare float_exp_up.simps [simp del] float_exp_down.simps [simp del]

text \<open>The binary exponent \<open>\<lfloor>log\<^sub>2 x\<rfloor>\<close> of a positive number.\<close>

definition float_exp :: "real \<Rightarrow> int" where
  "float_exp x = (if 2 \<le> x then float_exp_up x else float_exp_down x)"

definition pow2 :: "int \<Rightarrow> real" where
  "pow2 e = (if 0 \<le> e then 2 ^ nat e else 1 / 2 ^ nat (- e))"

definition round_half_even :: "real \<Rightarrow> int" where
  "round_half_even x =
     (let f = \<lfloor>x\<rfloor>; d = x - of_int f
      in if d < 1 / 2 then f else if 1 / 2 < d then f + 1 else if even f then f else f + 1)"

definition fl :: "real \<Rightarrow> real" where
  "fl x = (if x = 0 then 0
           else let e = max (float_exp \<bar>x\<bar>) (- 1022) - 52
                in of_int (round_half_even (x / pow2 e)) * pow2 e)"

definition fadd :: "real \<Rightarrow> real \<Rightarrow> real" where
  "fadd x y = fl (x + y)"

definition fsub :: "real \<Rightarrow> real \<Rightarrow> real" where
  "fsub x y = fl (x - y)"

definition fmul :: "real \<Rightarrow> real \<Rightarrow> real" where
  "fmul x y = fl (x * y)"

definition fdiv :: "real \<Rightarrow> real \<Rightarrow> real" where
  "fdiv x y = fl (x / y)"

text \<open>
  \<^verbatim>\<open>round(x, 2)\<close>: the double nearest to \<open>x\<close> rounded to two decimals, where the decimal
  rounding is taken on the exact value of \<open>x\<close> and an exact tie goes to the even digit.
\<close>

definition round2 :: "real \<Rightarrow> real" where
  "round2 x = fl (of_int (round_half_even (x * 100)) / 100)"

section \<open>Configuration\<close>

text \<open>
  The fields of \<^verbatim>\<open>BotConfig\<close> that the execution-control core reads. The field
  \<^verbatim>\<open>kelly_fraction\<close> is written \<open>kelly_fraction_cfg\<close>, the name \<open>kelly_fraction\<close>
  being the function's.
\<close>

record BotConfig =
  poll_seconds :: real
  max_bets :: int
  dry_run :: bool
  low_roi_threshold :: real
  stop_on_403 :: bool
  poll_jitter_ratio :: real
  poll_backoff_base :: real
  poll_backoff_max :: real
  max_calls_per_hour :: int
  placed_ttl_seconds :: int
  placed_event_grace_seconds :: int
  paper_bankroll :: real
  kelly_fraction_cfg :: real
  max_stake :: real
  min_stake :: real
  fixed_stake :: real

section \<open>Staking engine\<close>

definition GRADE_PROB_DEFAULTS :: "string \<rightharpoonup> real" where
  "GRADE_PROB_DEFAULTS =
     [''A+'' \<mapsto> fl (60 / 100), ''A'' \<mapsto> fl (57 / 100), ''B'' \<mapsto> fl (54 / 100),
      ''C'' \<mapsto> fl (52 / 100), ''D'' \<mapsto> fl (50 / 100)]"

text \<open>\<^verbatim>\<open>GRADE_PROB_DEFAULTS.get(grade_label, 0.50)\<close>\<close>

definition grade_prob :: "string \<Rightarrow> real" where
  "grade_prob grade_label =
     (case GRADE_PROB_DEFAULTS grade_label of None \<Rightarrow> fl (50 / 100) | Some p \<Rightarrow> p)"

definition kelly_fraction :: "real \<Rightarrow> real \<Rightarrow> real" where
  "kelly_fraction edge_prob price =
     (if price \<le> 0 \<or> price \<ge> 1 then 0
      else let b = fsub (fdiv 1 price) 1;
               q = fsub 1 edge_prob;
               numerator = fsub (fmul b edge_prob) q
           in if numerator \<le> 0 \<or> b \<le> 0 then 0 else fdiv numerator b)"

text \<open>
  Lines 749 to 755 of \<^verbatim>\<open>place_bet\<close>: the stake from the bankroll and the Kelly
  fraction; \<open>None\<close> is the "skip tiny stake" return.
\<close>

definition size_stake :: "BotConfig \<Rightarrow> real \<Rightarrow> real \<Rightarrow> real option" where
  "size_stake config bankroll kelly =
     (let stake = fmul (fmul bankroll kelly) (kelly_fraction_cfg config);
          stake = (if fixed_stake config > 0 then fixed_stake config else stake);
          stake = min stake (max_stake config)
      in if stake < min_stake config then None else Some stake)"

text \<open>
  Lines 734 to 755 of \<^verbatim>\<open>place_bet\<close>: the three rejections and the stake. The price is
  the candidate's \<^verbatim>\<open>sharpSidePrice\<close> after \<^verbatim>\<open>float(price)\<close>, \<open>None\<close> when the field is
  missing.
\<close>

datatype rejection = MissingPrice | LowROI | TinyStake

definition stake_decision ::
  "BotConfig \<Rightarrow> real \<Rightarrow> string \<Rightarrow> real option \<Rightarrow> rejection + real" where
  "stake_decision config bankroll grade_label price_opt =
     (case price_opt of
        None \<Rightarrow> Inl MissingPrice
      | Some price \<Rightarrow>
          if price \<ge> low_roi_threshold config then Inl LowROI
          else (case size_stake config bankroll (kelly_fraction (grade_prob grade_label) price) of
                  None \<Rightarrow> Inl TinyStake
                | Some stake \<Rightarrow> Inr stake))"

section \<open>Python builtins on text and numbers\<close>

text \<open>
  Strings are byte strings here, so the classes below are the ASCII parts of Python's:
  \<^verbatim>\<open>str.strip()\<close> removes the characters for which \<^verbatim>\<open>isspace()\<close> holds, and
  \<^verbatim>\<open>\d\<close> is a decimal digit.
\<close>

definition is_space :: "char \<Rightarrow> bool" where
  "is_space c = (let n = (of_char c :: nat) in (9 \<le> n \<and> n \<le> 13) \<or> (28 \<le> n \<and> n \<le> 32))"

definition is_digit :: "char \<Rightarrow> bool" where
  "is_digit c = (let n = (of_char c :: nat) in 48 \<le> n \<and> n \<le> 57)"

definition is_alnum :: "char \<Rightarrow> bool" where
  "is_alnum c = (let n = (of_char c :: nat)
                 in (48 \<le> n \<and> n \<le> 57) \<or> (65 \<le> n \<and> n \<le> 90) \<or> (97 \<le> n \<and> n \<le> 122))"

definition digit_val :: "char \<Rightarrow> int" where
  "digit_val c = int (of_char c) - 48"

definition strip :: "string \<Rightarrow> string" where
  "strip s = rev (dropWhile is_space (rev (dropWhile is_space s)))"

text \<open>\<^verbatim>\<open>text.replace("Z", "+00:00")\<close>: every occurrence is replaced.\<close>

definition replace_Z :: "string \<Rightarrow> string" where
  "replace_Z s = concat (map (\<lambda>c. if c = CHR ''Z'' then ''+00:00'' else [c]) s)"

text \<open>\<^verbatim>\<open>int(text)\<close> on a string of decimal digits.\<close>

definition digits_to_int :: "string \<Rightarrow> int" where
  "digits_to_int s = foldl (\<lambda>acc c. acc * 10 + digit_val c) 0 s"

text \<open>
  \<^verbatim>\<open>int(s)\<close> on any string: surrounding white space, one optional sign, then digits
  with single underscores between them; \<open>None\<close> is the \<^verbatim>\<open>ValueError\<close>. The flag says
  whether the previous character was a digit.
\<close>

fun int_literal :: "int \<Rightarrow> bool \<Rightarrow> string \<Rightarrow> int option" where
  "int_literal acc prev [] = (if prev then Some acc else None)"
| "int_literal acc prev (c # cs) =
     (if is_digit c then int_literal (acc * 10 + digit_val c) True cs
      else if c = CHR ''_'' \<and> prev \<and> cs \<noteq> [] then int_literal acc False cs
      else None)"

definition py_int_str :: "string \<Rightarrow> int option" where
  "py_int_str s =
     (case strip s of
        [] \<Rightarrow> None
      | c # cs \<Rightarrow>
          if c = CHR ''+'' then int_literal 0 False cs
          else if c = CHR ''-'' then map_option uminus (int_literal 0 False cs)
          else int_literal 0 False (c # cs))"

text \<open>\<^verbatim>\<open>int(x)\<close> on a float: truncation towards zero.\<close>

definition py_trunc :: "real \<Rightarrow> int" where
  "py_trunc x = (if 0 \<le> x then \<lfloor>x\<rfloor> else \<lceil>x\<rceil>)"

text \<open>
  \<^verbatim>\<open>float(i)\<close> on an integer; \<open>None\<close> is the \<^verbatim>\<open>OverflowError\<close> of an integer beyond
  the range of a double.
\<close>

definition py_float_of_int :: "int \<Rightarrow> real option" where
  "py_float_of_int i = (if \<bar>i\<bar> < 2 ^ 1024 - 2 ^ 970 then Some (fl (of_int i)) else None)"

text \<open>
  \<^verbatim>\<open>int(x)\<close> on a JSON value; \<open>None\<close> is the \<^verbatim>\<open>TypeError\<close> or \<^verbatim>\<open>ValueError\<close>. A
  \<^verbatim>\<open>bool\<close> is an \<^verbatim>\<open>int\<close> in Python.
\<close>

definition py_int :: "jvalue \<Rightarrow> int option" where
  "py_int v =
     (case v of
        JNull \<Rightarrow> None
      | JBool b \<Rightarrow> Some (if b then 1 else 0)
      | JInt i \<Rightarrow> Some i
      | JFloat r \<Rightarrow> Some (py_trunc r)
      | JStr s \<Rightarrow> py_int_str s
      | JList _ \<Rightarrow> None
      | JDict _ \<Rightarrow> None)"

section \<open>Placement ledger\<close>

text \<open>
  What \<^verbatim>\<open>datetime.fromisoformat\<close> returns: \<open>wall_seconds\<close> is the number of seconds
  from 1970-01-01T00:00:00 to the date and time written in the text, read without any
  zone; \<open>utcoffset\<close> is the zone's offset in seconds, \<open>None\<close> when the text names no
  zone (\<^verbatim>\<open>dt.tzinfo is None\<close>). The parser itself belongs to the Python library and is a
  parameter of the model; it answers \<open>None\<close> where the library raises \<^verbatim>\<open>ValueError\<close>.
\<close>

record datetime =
  wall_seconds :: real
  utcoffset :: "real option"

text \<open>
  \<^verbatim>\<open>dt.timestamp()\<close> of a datetime with a zone: the double nearest to the POSIX time.
\<close>

definition timestamp :: "datetime \<Rightarrow> real" where
  "timestamp dt = fl (wall_seconds dt - (case utcoffset dt of None \<Rightarrow> 0 | Some off \<Rightarrow> off))"

text \<open>The numeric branch of \<open>parse_event_time_seconds\<close>, after \<^verbatim>\<open>float(raw_value)\<close>.\<close>

definition event_time_of_float :: "real \<Rightarrow> int option" where
  "event_time_of_float v =
     (let value = (if v > 1000000000000 then fdiv v 1000 else v)
      in if value > 0 then Some (py_trunc value) else None)"

text \<open>
  The text branch. \<^verbatim>\<open>str()\<close> of a list or a dictionary starts with a bracket: it is
  neither made of digits nor an ISO-8601 date, so those values take the \<^verbatim>\<open>except\<close>
  branch, like any other text the library rejects.
\<close>

definition event_time_of_text :: "(string \<Rightarrow> datetime option) \<Rightarrow> string \<Rightarrow> int option" where
  "event_time_of_text fromisoformat s =
     (let text = strip s
      in if text = [] then None
         else if list_all is_digit text then
           (let value = digits_to_int text;
                value = (if value > 1000000000000 then value div 1000 else value)
            in if value > 0 then Some value else None)
         else (case fromisoformat (replace_Z text) of
                 None \<Rightarrow> None
               | Some dt \<Rightarrow>
                   (let dt = (if utcoffset dt = None then dt\<lparr>utcoffset := Some 0\<rparr> else dt)
                    in Some (py_trunc (timestamp dt)))))"

definition parse_event_time_seconds ::
  "(string \<Rightarrow> datetime option) \<Rightarrow> jvalue \<Rightarrow> int option" where
  "parse_event_time_seconds fromisoformat raw_value =
     (case raw_value of
        JNull \<Rightarrow> None
      | JBool b \<Rightarrow> event_time_of_float (if b then 1 else 0)
      | JInt i \<Rightarrow> (case py_float_of_int i of None \<Rightarrow> None | Some v \<Rightarrow> event_time_of_float v)
      | JFloat r \<Rightarrow> event_time_of_float r
      | JStr s \<Rightarrow> event_time_of_text fromisoformat s
      | JList _ \<Rightarrow> None
      | JDict _ \<Rightarrow> None)"

text \<open>
  The ledger maps a condition id to a row, a dictionary with the keys \<^verbatim>\<open>placedAt\<close>
  and \<^verbatim>\<open>eventTime\<close>.
\<close>

type_synonym ledger = "(string \<times> pydict) list"

text \<open>
  \<^verbatim>\<open>int(placed_at_raw) if placed_at_raw is not None else now_ts\<close>, with \<^verbatim>\<open>now_ts\<close>
  again when the conversion raises: the same five lines stand in
  \<^verbatim>\<open>normalize_placed_meta\<close> and in \<^verbatim>\<open>prune_placed_meta\<close>.
\<close>

definition placed_at_or_now :: "int \<Rightarrow> jvalue \<Rightarrow> int" where
  "placed_at_or_now now_ts placed_at_raw =
     (case placed_at_raw of
        JNull \<Rightarrow> now_ts
      | _ \<Rightarrow> (case py_int placed_at_raw of None \<Rightarrow> now_ts | Some placed_at \<Rightarrow> placed_at))"

text \<open>The row \<open>normalize_placed_meta\<close> builds from one value of \<^verbatim>\<open>placedMeta\<close>.\<close>

definition normalize_row :: "int \<Rightarrow> jvalue \<Rightarrow> pydict" where
  "normalize_row now_ts v =
     (let row = (case v of JDict r \<Rightarrow> r | _ \<Rightarrow> [])
      in [(''placedAt'', JInt (placed_at_or_now now_ts (dict_get row ''placedAt''))),
          (''eventTime'', dict_get row ''eventTime'')])"

definition meta_from_dict :: "pydict \<Rightarrow> int \<Rightarrow> ledger" where
  "meta_from_dict meta_raw now_ts =
     foldl (\<lambda>meta (condition_id, v).
              if condition_id = [] then meta
              else AList.update condition_id (normalize_row now_ts v) meta)
       [] meta_raw"

definition meta_from_legacy :: "jvalue list \<Rightarrow> int \<Rightarrow> ledger" where
  "meta_from_legacy legacy now_ts =
     foldl (\<lambda>meta item.
              case item of
                JStr s \<Rightarrow>
                  if s \<noteq> [] then
                    AList.update s [(''placedAt'', JInt now_ts), (''eventTime'', JNull)] meta
                  else meta
              | _ \<Rightarrow> meta)
       [] legacy"

definition normalize_placed_meta :: "pydict \<Rightarrow> int \<Rightarrow> ledger" where
  "normalize_placed_meta state now_ts =
     (case dict_get state ''placedMeta'' of
        JDict meta_raw \<Rightarrow> meta_from_dict meta_raw now_ts
      | _ \<Rightarrow>
          (case (case map_of state ''placed'' of None \<Rightarrow> JList [] | Some v \<Rightarrow> v) of
             JList legacy \<Rightarrow> meta_from_legacy legacy now_ts
           | _ \<Rightarrow> []))"

text \<open>
  The test of \<open>prune_placed_meta\<close> on one row. The loop copies the rows that pass into a
  new dictionary in the order of the old one, whose keys are distinct: a filter.
\<close>

definition prune_keeps ::
  "(string \<Rightarrow> datetime option) \<Rightarrow> int \<Rightarrow> int \<Rightarrow> int \<Rightarrow> pydict \<Rightarrow> bool" where
  "prune_keeps fromisoformat now_ts ttl_seconds event_grace_seconds row =
     (case parse_event_time_seconds fromisoformat (dict_get row ''eventTime'') of
        Some event_ts \<Rightarrow> now_ts \<le> event_ts + event_grace_seconds
      | None \<Rightarrow> now_ts - placed_at_or_now now_ts (dict_get row ''placedAt'') \<le> ttl_seconds)"

definition prune_placed_meta ::
  "(string \<Rightarrow> datetime option) \<Rightarrow> ledger \<Rightarrow> int \<Rightarrow> int \<Rightarrow> int \<Rightarrow> ledger" where
  "prune_placed_meta fromisoformat meta now_ts ttl_seconds event_grace_seconds =
     filter (\<lambda>(condition_id, row).
               prune_keeps fromisoformat now_ts ttl_seconds event_grace_seconds row) meta"

text \<open>
  A stand-in for the library's parser on three texts, for evaluating the functions above:
  midnight of 1 January 2024 with the offset \<^verbatim>\<open>+00:00\<close>, without a zone, and the same
  instant written with the offset \<^verbatim>\<open>+01:00\<close>.
\<close>

definition example_fromisoformat :: "string \<Rightarrow> datetime option" where
  "example_fromisoformat s =
     (if s = ''2024-01-01T00:00:00+00:00''
        then Some \<lparr>wall_seconds = 1704067200, utcoffset = Some 0\<rparr>
      else if s = ''2024-01-01T00:00:00''
        then Some \<lparr>wall_seconds = 1704067200, utcoffset = None\<rparr>
      else if s = ''2024-01-01T01:00:00+01:00''
        then Some \<lparr>wall_seconds = 1704070800, utcoffset = Some 3600\<rparr>
      else None)"

section \<open>Auxiliary facts\<close>

lemma map_of_filter_distinct:
  "distinct (map fst xs) \<Longrightarrow> map_of xs k = Some v \<Longrightarrow>
   map_of (filter (\<lambda>(c, r). P r) xs) k = (if P v then Some v else None)"
proof (induction xs)
  case Nil
  then show ?case by simp
next
  case (Cons x xs)
  obtain c r where x: "x = (c, r)" by (cases x)
  show ?case
  proof (cases "c = k")
    case True
    with Cons.prems x have v: "r = v" and notin: "k \<notin> fst ` set xs" by auto
    from notin have "map_of (filter (\<lambda>(c, r). P r) xs) k = None"
      by (auto simp: map_of_eq_None_iff)
    with True x v show ?thesis by simp
  next
    case False
    with Cons x show ?thesis by simp
  qed
qed

lemma map_of_filter_absent:
  "map_of xs k = None \<Longrightarrow> map_of (filter P xs) k = None"
  by (auto simp: map_of_eq_None_iff)

lemma float_exp_up_le: "x < 2 ^ Suc n \<Longrightarrow> float_exp_up x \<le> int n"
proof (induction n arbitrary: x)
  case 0
  then show ?case by (subst float_exp_up.simps) simp
next
  case (Suc n)
  have "float_exp_up (x / 2) \<le> int n"
    using Suc.prems by (intro Suc.IH) simp
  then show ?case by (subst float_exp_up.simps) simp
qed

lemma float_exp_down_le: "float_exp_down x \<le> 0"
proof (induction x rule: float_exp_down.induct)
  case (1 x)
  then show ?case by (subst float_exp_down.simps) auto
qed

lemma round_half_even_of_int: "round_half_even (of_int k) = k"
  by (simp add: round_half_even_def)

lemma fl_of_int:
  assumes "\<bar>i\<bar> < 2 ^ 53"
  shows "fl (of_int i) = of_int i"
proof (cases "i = 0")
  case True
  then show ?thesis by (simp add: fl_def)
next
  case False
  define e where "e = max (float_exp \<bar>of_int i\<bar>) (- 1022) - 52"
  have "real_of_int \<bar>i\<bar> < 2 ^ 53"
    unfolding of_int_less_numeral_power_cancel_iff using assms .
  then have "\<bar>real_of_int i\<bar> < 2 ^ Suc 52" by simp
  then have "float_exp_up \<bar>of_int i\<bar> \<le> 52"
    using float_exp_up_le [of "\<bar>of_int i\<bar>" 52] by simp
  then have "float_exp \<bar>of_int i\<bar> \<le> 52"
    using float_exp_down_le [of "\<bar>of_int i\<bar>"] by (simp add: float_exp_def)
  then have e: "e \<le> 0" by (simp add: e_def)
  define m where "m = nat (- e)"
  have p: "pow2 e = 1 / 2 ^ m"
  proof (cases "e = 0")
    case True then show ?thesis by (simp add: pow2_def m_def)
  next
    case False with e show ?thesis by (simp add: pow2_def m_def)
  qed
  have "of_int i / pow2 e = (of_int (i * 2 ^ m) :: real)" by (simp add: p)
  then have "round_half_even (of_int i / pow2 e) = i * 2 ^ m"
    by (simp only: round_half_even_of_int)
  then have "of_int (round_half_even (of_int i / pow2 e)) * pow2 e = (of_int i :: real)"
    by (simp add: p)
  with False show ?thesis by (simp add: fl_def e_def Let_def)
qed

lemma meta_from_dict_lookup_aux:
  "distinct (map fst xs) \<Longrightarrow>
   map_of (foldl (\<lambda>meta (condition_id, v).
              if condition_id = [] then meta
              else AList.update condition_id (g v) meta) acc xs) k =
     (case map_of xs k of
        None \<Rightarrow> map_of acc k
      | Some v \<Rightarrow> if k = [] then map_of acc k else Some (g v))"
proof (induction xs arbitrary: acc)
  case Nil
  then show ?case by simp
next
  case (Cons x xs)
  obtain c v where x: "x = (c, v)" by (cases x)
  from Cons.prems x have d: "distinct (map fst xs)" and notin: "c \<notin> fst ` set xs" by auto
  show ?case
  proof (cases "c = k")
    case True
    with notin have "map_of xs k = None" by (simp add: map_of_eq_None_iff)
    with True x Cons.IH [OF d] show ?thesis by (simp add: update_conv')
  next
    case False
    with x Cons.IH [OF d] show ?thesis by (simp add: update_conv' split: option.splits)
  qed
qed

lemma meta_from_legacy_lookup_aux:
  "map_of (foldl (\<lambda>meta item.
              case item of
                JStr s \<Rightarrow> if s \<noteq> [] then AList.update s row meta else meta
              | _ \<Rightarrow> meta) acc items) k =
     (if JStr k \<in> set items \<and> k \<noteq> [] then Some row else map_of acc k)"
proof (induction items arbitrary: acc)
  case Nil
  then show ?case by simp
next
  case (Cons item items)
  show ?case
    by (cases item) (simp_all add: Cons.IH update_conv')
qed

lemma event_time_of_text_digits:
  assumes "strip s \<noteq> []" and "list_all is_digit (strip s)"
  shows "event_time_of_text parse_iso s =
           (let v = digits_to_int (strip s)
            in if v > 1000000000000 then Some (v div 1000) else if v > 0 then Some v else None)"
  using assms by (auto simp: event_time_of_text_def Let_def)

lemma event_time_of_text_iso:
  assumes "strip s \<noteq> []" and "\<not> list_all is_digit (strip s)"
  shows "event_time_of_text parse_iso s =
           (case parse_iso (replace_Z (strip s)) of
              None \<Rightarrow> None
            | Some dt \<Rightarrow> Some (py_trunc (fl (wall_seconds dt
                 - (case utcoffset dt of None \<Rightarrow> 0 | Some off \<Rightarrow> off)))))"
  using assms by (auto simp: event_time_of_text_def Let_def timestamp_def split: option.splits)

lemma parse_int_seconds:
  assumes "0 < i" and "i \<le> 1000000000000"
  shows "parse_event_time_seconds parse_iso (JInt i) = Some i"
proof -
  have "\<bar>i\<bar> < 2 ^ 53" using assms by simp
  then have f: "fl (of_int i) = of_int i" by (rule fl_of_int)
  have "\<bar>i\<bar> < 2 ^ 1024 - 2 ^ 970" using assms by simp
  then have "py_float_of_int i = Some (of_int i)" by (simp add: py_float_of_int_def f)
  then show ?thesis using assms
    by (simp add: parse_event_time_seconds_def event_time_of_float_def py_trunc_def)
qed

section \<open>Evaluation of the rounding function\<close>

lemma fl_057: "fl (57 / 100) = 5134103575202365 / 9007199254740992"
  by code_simp

lemma fl_014: "fl (14 / 100) = 1261007895663739 / 9007199254740992"
  by code_simp

lemma fl_half: "fl (1 / 2) = 1 / 2"
  by code_simp

lemma kelly_A_half:
  "kelly_fraction (fl (57 / 100)) (fl (1 / 2)) = 630503947831869 / 4503599627370496"
  by code_simp

section \<open>Claims about the staking engine\<close>

text \<open>
  C8, as the code has it. \<open>kelly_fraction\<close> returns 0 for every price at or below 0 and at
  or above 1; otherwise, with \<open>b = 1/price - 1\<close>, \<open>q = 1 - edge_prob\<close> and
  \<open>numerator = b * edge_prob - q\<close>, each operation in double precision, it returns 0 when
  \<open>numerator \<le> 0\<close> or \<open>b \<le> 0\<close> and \<open>numerator / b\<close> otherwise. For grade A at price 0.50
  the result is the double \<open>630503947831869 / 2\<^sup>5\<^sup>2\<close>, printed 0.1399999999999999: it lies
  within \<open>2\<^sup>-\<^sup>5\<^sup>2\<close> of 0.14 and is not the double 0.14.
\<close>

theorem kelly_fraction_cases:
  "kelly_fraction edge_prob price =
     (if price \<le> 0 \<or> 1 \<le> price then 0
      else if fsub (fmul (fsub (fdiv 1 price) 1) edge_prob) (fsub 1 edge_prob) \<le> 0
            \<or> fsub (fdiv 1 price) 1 \<le> 0 then 0
      else fdiv (fsub (fmul (fsub (fdiv 1 price) 1) edge_prob) (fsub 1 edge_prob))
             (fsub (fdiv 1 price) 1))
   \<and> kelly_fraction edge_prob 0 = 0
   \<and> kelly_fraction edge_prob 1 = 0
   \<and> (1 < price \<longrightarrow> kelly_fraction edge_prob price = 0)
   \<and> kelly_fraction (fl (57 / 100)) (fl (50 / 100)) = 630503947831869 / 4503599627370496
   \<and> \<bar>kelly_fraction (fl (57 / 100)) (fl (50 / 100)) - 14 / 100\<bar> < 1 / 2 ^ 52"
proof -
  have a: "fl (50 / 100) = fl (1 / 2)" by simp
  show ?thesis
    unfolding a kelly_A_half
    by (simp add: kelly_fraction_def Let_def)
qed

theorem kelly_fraction_cases_witness:
  "(1::real) < 2 \<and> kelly_fraction (fl (57 / 100)) 2 = 0
   \<and> kelly_fraction (fl (57 / 100)) (fl (50 / 100)) = 630503947831869 / 4503599627370496"
  using kelly_fraction_cases [of "fl (57 / 100)" 2] by simp

text \<open>
  The claim as stated asks for the double 0.14 exactly; the three rounded operations of
  the code return its predecessor.
\<close>

theorem kelly_fraction_exact_counterexample:
  "kelly_fraction (fl (57 / 100)) (fl (50 / 100)) \<noteq> fl (14 / 100)"
proof -
  have a: "fl (50 / 100) = fl (1 / 2)" by simp
  show ?thesis unfolding a kelly_A_half fl_014 by simp
qed

lemma raw_stake_example: "fmul (fmul 1000 (fl (14 / 100))) (1 / 4) = 35"
  by code_simp

lemma raw_stake_example_normal: "fmul (fmul 1000 (fl (7 / 50))) (1 / 4) = 35"
  using raw_stake_example by simp

text \<open>
  C7. For a candidate with a price, \<open>place_bet\<close> sizes the stake in this order: a price at
  or above \<open>low_roi_threshold\<close> is rejected whatever the Kelly fraction is; otherwise the
  raw stake is bankroll times \<open>kelly_fraction\<close> times the configured fraction; a fixed
  stake above 0 replaces it; the result is capped at \<open>max_stake\<close> (no floor); a result
  below \<open>min_stake\<close> is rejected. Bankroll 1000, Kelly fraction 0.14, configured fraction
  0.25, cap 50 and minimum 1 give 35.0; a fixed stake of 10 with cap 5 and a minimum of at
  most 5 gives 5.
\<close>

theorem stake_pipeline_order:
  "stake_decision config bankroll grade_label (Some price) =
     (if low_roi_threshold config \<le> price then Inl LowROI
      else let rawStake = fmul (fmul bankroll (kelly_fraction (grade_prob grade_label) price))
                            (kelly_fraction_cfg config);
               chosen = (if 0 < fixed_stake config then fixed_stake config else rawStake);
               clamped = min chosen (max_stake config)
           in if clamped < min_stake config then Inl TinyStake else Inr clamped)
   \<and> size_stake (config\<lparr>kelly_fraction_cfg := 1 / 4, max_stake := 50, min_stake := 1,
         fixed_stake := 0\<rparr>) 1000 (fl (14 / 100)) = Some 35
   \<and> (fixed_stake config = 10 \<and> max_stake config = 5 \<and> min_stake config \<le> 5
        \<longrightarrow> size_stake config bankroll kelly = Some 5)"
proof (intro conjI)
  show "stake_decision config bankroll grade_label (Some price) =
     (if low_roi_threshold config \<le> price then Inl LowROI
      else let rawStake = fmul (fmul bankroll (kelly_fraction (grade_prob grade_label) price))
                            (kelly_fraction_cfg config);
               chosen = (if 0 < fixed_stake config then fixed_stake config else rawStake);
               clamped = min chosen (max_stake config)
           in if clamped < min_stake config then Inl TinyStake else Inr clamped)"
    by (simp add: stake_decision_def size_stake_def Let_def)
next
  show "size_stake (config\<lparr>kelly_fraction_cfg := 1 / 4, max_stake := 50, min_stake := 1,
         fixed_stake := 0\<rparr>) 1000 (fl (14 / 100)) = Some 35"
    by (simp add: size_stake_def raw_stake_example_normal)
next
  show "fixed_stake config = 10 \<and> max_stake config = 5 \<and> min_stake config \<le> 5
        \<longrightarrow> size_stake config bankroll kelly = Some 5"
    by (simp add: size_stake_def Let_def)
qed

theorem stake_pipeline_order_witness:
  "size_stake \<lparr>poll_seconds = 20, max_bets = 5, dry_run = True,
      low_roi_threshold = fl (72 / 100), stop_on_403 = True, poll_jitter_ratio = fl (2 / 10),
      poll_backoff_base = 2, poll_backoff_max = 120, max_calls_per_hour = 120,
      placed_ttl_seconds = 21600, placed_event_grace_seconds = 1800, paper_bankroll = 1000,
      kelly_fraction_cfg = 1 / 4, max_stake = 5, min_stake = 1, fixed_stake = 10\<rparr>
     1000 (fl (14 / 100)) = Some 5"
  using stake_pipeline_order
    [of "\<lparr>poll_seconds = 20, max_bets = 5, dry_run = True,
      low_roi_threshold = fl (72 / 100), stop_on_403 = True, poll_jitter_ratio = fl (2 / 10),
      poll_backoff_base = 2, poll_backoff_max = 120, max_calls_per_hour = 120,
      placed_ttl_seconds = 21600, placed_event_grace_seconds = 1800, paper_bankroll = 1000,
      kelly_fraction_cfg = 1 / 4, max_stake = 5, min_stake = 1, fixed_stake = 10\<rparr>"
      1000 "''A''" "1 / 2" "fl (14 / 100)"]
  by simp

section \<open>Claims about the placement ledger\<close>

text \<open>
  C1, as the code has it. For every ledger, \<open>now\<close>, ttl and grace, \<open>prune_placed_meta\<close>
  decides each entry by this precedence. If the entry's \<^verbatim>\<open>eventTime\<close> parses to a
  timestamp, the entry is retained iff \<open>now \<le> eventTime + grace\<close>, and the ttl has no
  influence. Otherwise the entry is retained iff \<open>now - placedAt \<le> ttl\<close>, where a
  missing or unparseable \<^verbatim>\<open>placedAt\<close> counts as \<open>now\<close>; such an entry is retained
  provided the ttl is not negative. Pruning adds no entry. What parses: a number of epoch
  seconds, a number above \<open>10\<^sup>1\<^sup>2\<close> as epoch milliseconds, a text of digits likewise, and any
  text the ISO-8601 parser accepts once every \<^verbatim>\<open>Z\<close> is replaced by \<^verbatim>\<open>+00:00\<close>, a text
  without a zone being read as UTC.
\<close>

theorem prune_precedence:
  assumes "distinct (map fst meta)" and "map_of meta condition_id = Some row"
  shows
    "(parse_event_time_seconds fromisoformat (dict_get row ''eventTime'') = Some event_ts \<longrightarrow>
        map_of (prune_placed_meta fromisoformat meta now_ts ttl_seconds event_grace_seconds)
          condition_id
        = (if now_ts \<le> event_ts + event_grace_seconds then Some row else None))
   \<and> (parse_event_time_seconds fromisoformat (dict_get row ''eventTime'') = None \<longrightarrow>
        map_of (prune_placed_meta fromisoformat meta now_ts ttl_seconds event_grace_seconds)
          condition_id
        = (if now_ts - placed_at_or_now now_ts (dict_get row ''placedAt'') \<le> ttl_seconds
           then Some row else None))
   \<and> (dict_get row ''placedAt'' = JNull \<or> py_int (dict_get row ''placedAt'') = None \<longrightarrow>
        placed_at_or_now now_ts (dict_get row ''placedAt'') = now_ts)
   \<and> (parse_event_time_seconds fromisoformat (dict_get row ''eventTime'') = None
        \<and> (dict_get row ''placedAt'' = JNull \<or> py_int (dict_get row ''placedAt'') = None)
        \<and> 0 \<le> ttl_seconds \<longrightarrow>
        map_of (prune_placed_meta fromisoformat meta now_ts ttl_seconds event_grace_seconds)
          condition_id = Some row)
   \<and> (map_of meta other = None \<longrightarrow>
        map_of (prune_placed_meta fromisoformat meta now_ts ttl_seconds event_grace_seconds)
          other = None)
   \<and> (0 < i \<and> i \<le> 1000000000000 \<longrightarrow>
        parse_event_time_seconds fromisoformat (JInt i) = Some i)
   \<and> parse_event_time_seconds fromisoformat (JInt 1704067200123) = Some 1704067200
   \<and> (strip s \<noteq> [] \<and> list_all is_digit (strip s) \<longrightarrow>
        parse_event_time_seconds fromisoformat (JStr s) =
          (let v = digits_to_int (strip s)
           in if v > 1000000000000 then Some (v div 1000) else if v > 0 then Some v else None))
   \<and> (strip s \<noteq> [] \<and> \<not> list_all is_digit (strip s) \<longrightarrow>
        parse_event_time_seconds fromisoformat (JStr s) =
          (case fromisoformat (replace_Z (strip s)) of
             None \<Rightarrow> None
           | Some dt \<Rightarrow> Some (py_trunc (fl (wall_seconds dt
                - (case utcoffset dt of None \<Rightarrow> 0 | Some off \<Rightarrow> off))))))"
proof -
  let ?pruned = "prune_placed_meta fromisoformat meta now_ts ttl_seconds event_grace_seconds"
  have look: "map_of ?pruned condition_id =
      (if prune_keeps fromisoformat now_ts ttl_seconds event_grace_seconds row
       then Some row else None)"
    unfolding prune_placed_meta_def using assms by (rule map_of_filter_distinct)
  have pa: "dict_get row ''placedAt'' = JNull \<or> py_int (dict_get row ''placedAt'') = None \<longrightarrow>
        placed_at_or_now now_ts (dict_get row ''placedAt'') = now_ts"
    by (auto simp: placed_at_or_now_def split: jvalue.splits)
  have c1: "parse_event_time_seconds fromisoformat (dict_get row ''eventTime'') = Some event_ts \<longrightarrow>
        map_of ?pruned condition_id
        = (if now_ts \<le> event_ts + event_grace_seconds then Some row else None)"
    by (simp add: look prune_keeps_def)
  have c2: "parse_event_time_seconds fromisoformat (dict_get row ''eventTime'') = None \<longrightarrow>
        map_of ?pruned condition_id
        = (if now_ts - placed_at_or_now now_ts (dict_get row ''placedAt'') \<le> ttl_seconds
           then Some row else None)"
    by (simp add: look prune_keeps_def)
  have c4: "parse_event_time_seconds fromisoformat (dict_get row ''eventTime'') = None
        \<and> (dict_get row ''placedAt'' = JNull \<or> py_int (dict_get row ''placedAt'') = None)
        \<and> 0 \<le> ttl_seconds \<longrightarrow> map_of ?pruned condition_id = Some row"
  proof (intro impI, elim conjE)
    assume n: "parse_event_time_seconds fromisoformat (dict_get row ''eventTime'') = None"
      and p: "dict_get row ''placedAt'' = JNull \<or> py_int (dict_get row ''placedAt'') = None"
      and t: "0 \<le> ttl_seconds"
    from pa p have "placed_at_or_now now_ts (dict_get row ''placedAt'') = now_ts" by blast
    with c2 n t show "map_of ?pruned condition_id = Some row" by simp
  qed
  have c5: "map_of meta other = None \<longrightarrow> map_of ?pruned other = None"
    unfolding prune_placed_meta_def by (simp add: map_of_filter_absent)
  have c6: "0 < i \<and> i \<le> 1000000000000 \<longrightarrow>
        parse_event_time_seconds fromisoformat (JInt i) = Some i"
    by (simp add: parse_int_seconds)
  have c7: "parse_event_time_seconds fromisoformat (JInt 1704067200123) = Some 1704067200"
    by code_simp
  have c8: "strip s \<noteq> [] \<and> list_all is_digit (strip s) \<longrightarrow>
        parse_event_time_seconds fromisoformat (JStr s) =
          (let v = digits_to_int (strip s)
           in if v > 1000000000000 then Some (v div 1000) else if v > 0 then Some v else None)"
    by (simp add: parse_event_time_seconds_def event_time_of_text_digits)
  have c9: "strip s \<noteq> [] \<and> \<not> list_all is_digit (strip s) \<longrightarrow>
        parse_event_time_seconds fromisoformat (JStr s) =
          (case fromisoformat (replace_Z (strip s)) of
             None \<Rightarrow> None
           | Some dt \<Rightarrow> Some (py_trunc (fl (wall_seconds dt
                - (case utcoffset dt of None \<Rightarrow> 0 | Some off \<Rightarrow> off)))))"
    by (simp add: parse_event_time_seconds_def event_time_of_text_iso)
  from c1 c2 pa c4 c5 c6 c7 c8 c9 show ?thesis by blast
qed

theorem prune_precedence_witness:
  "map_of (prune_placed_meta example_fromisoformat
      [(''0xaa'', [(''placedAt'', JInt 1704000000), (''eventTime'', JStr ''2024-01-01T00:00:00Z'')]),
       (''0xbb'', [(''placedAt'', JStr ''n/a''), (''eventTime'', JNull)])]
      1704069000 0 1800) ''0xaa''
   = Some [(''placedAt'', JInt 1704000000), (''eventTime'', JStr ''2024-01-01T00:00:00Z'')]
   \<and> map_of (prune_placed_meta example_fromisoformat
      [(''0xaa'', [(''placedAt'', JInt 1704000000), (''eventTime'', JStr ''2024-01-01T00:00:00Z'')]),
       (''0xbb'', [(''placedAt'', JStr ''n/a''), (''eventTime'', JNull)])]
      1704069001 1000000 1800) ''0xaa'' = None"
proof -
  let ?row = "[(''placedAt'', JInt 1704000000), (''eventTime'', JStr ''2024-01-01T00:00:00Z'')]"
  let ?meta = "[(''0xaa'', ?row), (''0xbb'', [(''placedAt'', JStr ''n/a''), (''eventTime'', JNull)])]"
  have d: "distinct (map fst ?meta)" by simp
  have m: "map_of ?meta ''0xaa'' = Some ?row" by simp
  have p: "parse_event_time_seconds example_fromisoformat (dict_get ?row ''eventTime'')
            = Some 1704067200"
    by code_simp
  from prune_precedence [OF d m, of example_fromisoformat 1704067200 1704069000 0 1800] p
  have a: "map_of (prune_placed_meta example_fromisoformat ?meta 1704069000 0 1800) ''0xaa''
            = Some ?row" by simp
  from prune_precedence [OF d m, of example_fromisoformat 1704067200 1704069001 1000000 1800] p
  have b: "map_of (prune_placed_meta example_fromisoformat ?meta 1704069001 1000000 1800) ''0xaa''
            = None" by simp
  from a b show ?thesis by simp
qed

text \<open>
  With a negative ttl the age 0 of an entry whose \<^verbatim>\<open>placedAt\<close> is missing already
  exceeds the ttl: the entry is dropped at once.
\<close>

theorem prune_missing_placed_at_counterexample:
  "dict_get [(''eventTime'', JNull)] ''placedAt'' = JNull
   \<and> map_of (prune_placed_meta example_fromisoformat
        [(''0xaa'', [(''eventTime'', JNull)])] 1704069000 (- 1) 1800) ''0xaa'' = None"
  by code_simp

end
